theory Spec2Isabelle
  imports Main "HOL-Library.Word"
begin

section \<open>The JNI interface the module is written against\<close>

text \<open>
  The two source files, \<^verbatim>\<open>jni_thread_helper.cpp\<close> and \<^verbatim>\<open>jni_thread_helper.hpp\<close>,
  call the host runtime only through three entries of the \<^verbatim>\<open>JavaVM\<close> function table and
  compare the returned \<^verbatim>\<open>jint\<close> with constants of \<^verbatim>\<open>jni.h\<close>. A \<^verbatim>\<open>jint\<close> is a 32-bit
  integer and a \<^verbatim>\<open>jboolean\<close> an 8-bit one; the constants have the values \<^verbatim>\<open>jni.h\<close> gives them.
\<close>

type_synonym jint = "32 word"
type_synonym jboolean = "8 word"

definition JNI_OK :: jint where "JNI_OK = 0"
definition JNI_ERR :: jint where "JNI_ERR = - 1"
definition JNI_EDETACHED :: jint where "JNI_EDETACHED = - 2"
definition JNI_EVERSION :: jint where "JNI_EVERSION = - 3"
definition JNI_VERSION_1_6 :: jint where "JNI_VERSION_1_6 = 0x00010006"
definition JNI_FALSE :: jboolean where "JNI_FALSE = 0"
definition JNI_TRUE :: jboolean where "JNI_TRUE = 1"

text \<open>
  A \<^verbatim>\<open>JavaVM\<close> is an object with a function table. The host runtime keeps its own state
  \<open>'h\<close> (the per-thread attachment lives there, not in the module); \<open>'t\<close> names threads and
  \<open>'e\<close> environments, so that a \<^verbatim>\<open>JNIEnv*\<close> is an \<open>'e option\<close> with \<open>None\<close> for
  \<^verbatim>\<open>nullptr\<close>. Each entry takes the host state and the calling thread. The out parameter
  \<^verbatim>\<open>penv\<close> is passed as its content before the call and returned as its content after it,
  so a runtime that does not write it is covered. \<^verbatim>\<open>GetEnv\<close> is the interface's query: it
  reads the host state and writes only the out parameter. The other two return the host
  state they leave behind. Nothing else is fixed about the runtime.
\<close>

record ('h, 't, 'e) JavaVM =
  GetEnv :: "'h \<Rightarrow> 't \<Rightarrow> 'e option \<Rightarrow> jint \<Rightarrow> jint \<times> 'e option"
  AttachCurrentThread :: "'h \<Rightarrow> 't \<Rightarrow> 'e option \<Rightarrow> (jint \<times> 'e option) \<times> 'h"
  DetachCurrentThread :: "'h \<Rightarrow> 't \<Rightarrow> jint \<times> 'h"

section \<open>The process: global handle, host state, requests issued, log\<close>

datatype 't jni_call =
    CallGetEnv 't jint
  | CallAttachCurrentThread 't
  | CallDetachCurrentThread 't

datatype log_arg = ArgInt jint | ArgStr string

text \<open>\<^verbatim>\<open>LOGI\<close> and \<^verbatim>\<open>LOGE\<close> print a format string and its arguments at priority info or error.\<close>

datatype log_line = ANDROID_LOG_INFO string "log_arg list" | ANDROID_LOG_ERROR string "log_arg list"

record ('h, 't, 'e) process =
  g_jvm :: "('h, 't, 'e) JavaVM option"
  host :: 'h
  calls :: "'t jni_call list"
  logcat :: "log_line list"

definition LOGI :: "string \<Rightarrow> log_arg list \<Rightarrow> ('h, 't, 'e) process \<Rightarrow> ('h, 't, 'e) process" where
  "LOGI fmt args w = w\<lparr>logcat := logcat w @ [ANDROID_LOG_INFO fmt args]\<rparr>"

definition LOGE :: "string \<Rightarrow> log_arg list \<Rightarrow> ('h, 't, 'e) process \<Rightarrow> ('h, 't, 'e) process" where
  "LOGE fmt args w = w\<lparr>logcat := logcat w @ [ANDROID_LOG_ERROR fmt args]\<rparr>"

text \<open>
  A call through the function table by thread \<open>t\<close>: the request is recorded in \<open>calls\<close>,
  the runtime's answer is returned, and the host state is the one the runtime leaves.
\<close>

definition call_GetEnv ::
  "('h, 't, 'e) JavaVM \<Rightarrow> 't \<Rightarrow> 'e option \<Rightarrow> jint \<Rightarrow> ('h, 't, 'e) process
     \<Rightarrow> (jint \<times> 'e option) \<times> ('h, 't, 'e) process" where
  "call_GetEnv vm t penv version w =
     (GetEnv vm (host w) t penv version, w\<lparr>calls := calls w @ [CallGetEnv t version]\<rparr>)"

definition call_AttachCurrentThread ::
  "('h, 't, 'e) JavaVM \<Rightarrow> 't \<Rightarrow> 'e option \<Rightarrow> ('h, 't, 'e) process
     \<Rightarrow> (jint \<times> 'e option) \<times> ('h, 't, 'e) process" where
  "call_AttachCurrentThread vm t penv w =
     (fst (AttachCurrentThread vm (host w) t penv),
      w\<lparr>host := snd (AttachCurrentThread vm (host w) t penv),
        calls := calls w @ [CallAttachCurrentThread t]\<rparr>)"

definition call_DetachCurrentThread ::
  "('h, 't, 'e) JavaVM \<Rightarrow> 't \<Rightarrow> ('h, 't, 'e) process \<Rightarrow> jint \<times> ('h, 't, 'e) process" where
  "call_DetachCurrentThread vm t w =
     (fst (DetachCurrentThread vm (host w) t),
      w\<lparr>host := snd (DetachCurrentThread vm (host w) t),
        calls := calls w @ [CallDetachCurrentThread t]\<rparr>)"

section \<open>The exported entry points\<close>

text \<open>
  Both files give the four exported functions the same text (the header against
  \<^verbatim>\<open>native_detector::g_jvm\<close>). The parameters \<^verbatim>\<open>reserved\<close>, \<^verbatim>\<open>env\<close> and \<^verbatim>\<open>clazz\<close> are never
  read and are left out; \<open>t\<close> is the thread that makes the call.
\<close>

definition JNI_OnLoad ::
  "('h, 't, 'e) JavaVM option \<Rightarrow> ('h, 't, 'e) process \<Rightarrow> jint \<times> ('h, 't, 'e) process" where
  "JNI_OnLoad vm w =
     (let w1 = w\<lparr>g_jvm := vm\<rparr>;
          w2 = LOGI ''Native library loaded, JVM stored'' [] w1
      in (JNI_VERSION_1_6, w2))"

definition Java_com_example_augmented_1mobile_1application_utils_JNIThreadManager_attachCurrentThread ::
  "'t \<Rightarrow> ('h, 't, 'e) process \<Rightarrow> jboolean \<times> ('h, 't, 'e) process" where
  "Java_com_example_augmented_1mobile_1application_utils_JNIThreadManager_attachCurrentThread t w =
     (case g_jvm w of
        None \<Rightarrow> (JNI_FALSE, LOGE ''JVM not available for thread attachment'' [] w)
      | Some vm \<Rightarrow>
          (case call_GetEnv vm t None JNI_VERSION_1_6 w of
             ((result, thread_env), w1) \<Rightarrow>
               if result = JNI_EDETACHED then
                 (case call_AttachCurrentThread vm t thread_env w1 of
                    ((result, thread_env), w2) \<Rightarrow>
                      if result = JNI_OK
                      then (JNI_TRUE, LOGI ''Thread successfully attached to JVM'' [] w2)
                      else (JNI_FALSE, LOGE ''Failed to attach thread: %d'' [ArgInt result] w2))
               else (JNI_TRUE, w1)))"

definition Java_com_example_augmented_1mobile_1application_utils_JNIThreadManager_detachCurrentThread ::
  "'t \<Rightarrow> ('h, 't, 'e) process \<Rightarrow> ('h, 't, 'e) process" where
  "Java_com_example_augmented_1mobile_1application_utils_JNIThreadManager_detachCurrentThread t w =
     (case g_jvm w of
        None \<Rightarrow> w
      | Some vm \<Rightarrow>
          (case call_DetachCurrentThread vm t w of
             (_, w1) \<Rightarrow> LOGI ''Thread detached from JVM'' [] w1))"

definition Java_com_example_augmented_1mobile_1application_utils_JNIThreadManager_isCurrentThreadAttached ::
  "'t \<Rightarrow> ('h, 't, 'e) process \<Rightarrow> jboolean \<times> ('h, 't, 'e) process" where
  "Java_com_example_augmented_1mobile_1application_utils_JNIThreadManager_isCurrentThreadAttached t w =
     (case g_jvm w of
        None \<Rightarrow> (JNI_FALSE, w)
      | Some vm \<Rightarrow>
          (case call_GetEnv vm t None JNI_VERSION_1_6 w of
             ((result, thread_env), w1) \<Rightarrow>
               (if result = JNI_OK then JNI_TRUE else JNI_FALSE, w1)))"

abbreviation attachCurrentThread ::
  "'t \<Rightarrow> ('h, 't, 'e) process \<Rightarrow> jboolean \<times> ('h, 't, 'e) process" where
  "attachCurrentThread \<equiv>
     Java_com_example_augmented_1mobile_1application_utils_JNIThreadManager_attachCurrentThread"

abbreviation detachCurrentThread ::
  "'t \<Rightarrow> ('h, 't, 'e) process \<Rightarrow> ('h, 't, 'e) process" where
  "detachCurrentThread \<equiv>
     Java_com_example_augmented_1mobile_1application_utils_JNIThreadManager_detachCurrentThread"

abbreviation isCurrentThreadAttached ::
  "'t \<Rightarrow> ('h, 't, 'e) process \<Rightarrow> jboolean \<times> ('h, 't, 'e) process" where
  "isCurrentThreadAttached \<equiv>
     Java_com_example_augmented_1mobile_1application_utils_JNIThreadManager_isCurrentThreadAttached"

lemmas entry_defs =
  Java_com_example_augmented_1mobile_1application_utils_JNIThreadManager_attachCurrentThread_def
  Java_com_example_augmented_1mobile_1application_utils_JNIThreadManager_detachCurrentThread_def
  Java_com_example_augmented_1mobile_1application_utils_JNIThreadManager_isCurrentThreadAttached_def
  call_GetEnv_def call_AttachCurrentThread_def call_DetachCurrentThread_def LOGI_def LOGE_def

section \<open>The scoped attachment token\<close>

text \<open>
  \<^verbatim>\<open>class JNIThreadHelper\<close>: the constructor queries the thread's environment and attaches
  the thread when the answer is \<^verbatim>\<open>JNI_EDETACHED\<close>; \<^verbatim>\<open>attached_\<close> records that this object did
  the attach. The destructor detaches exactly when \<^verbatim>\<open>attached_\<close> is set and the handle is not
  null. The members \<^verbatim>\<open>jvm_\<close>, \<^verbatim>\<open>env_\<close> and \<^verbatim>\<open>attached_\<close> are the fields \<open>helper_jvm\<close>,
  \<open>helper_env\<close> and \<open>helper_attached\<close> (a name cannot end in an underscore here).
\<close>

record ('h, 't, 'e) JNIThreadHelper =
  helper_jvm :: "('h, 't, 'e) JavaVM option"
  helper_env :: "'e option"
  helper_attached :: bool

definition JNIThreadHelper_ctor ::
  "('h, 't, 'e) JavaVM option \<Rightarrow> 't \<Rightarrow> ('h, 't, 'e) process
     \<Rightarrow> ('h, 't, 'e) JNIThreadHelper \<times> ('h, 't, 'e) process" where
  "JNIThreadHelper_ctor jvm t w =
     (let this = \<lparr>helper_jvm = jvm, helper_env = None, helper_attached = False\<rparr> in
      case helper_jvm this of
        None \<Rightarrow> (this, w)
      | Some vm \<Rightarrow>
          (case call_GetEnv vm t (helper_env this) JNI_VERSION_1_6 w of
             ((result, e1), w1) \<Rightarrow>
               let this1 = this\<lparr>helper_env := e1\<rparr> in
               if result = JNI_EDETACHED then
                 (case call_AttachCurrentThread vm t (helper_env this1) w1 of
                    ((result, e2), w2) \<Rightarrow>
                      let this2 = this1\<lparr>helper_env := e2\<rparr> in
                      if result = JNI_OK
                      then (this2\<lparr>helper_attached := True\<rparr>, LOGI ''Thread attached to JVM'' [] w2)
                      else (this2, LOGE ''Failed to attach thread to JVM: %d'' [ArgInt result] w2))
               else (this1, w1)))"

definition JNIThreadHelper_dtor ::
  "('h, 't, 'e) JNIThreadHelper \<Rightarrow> 't \<Rightarrow> ('h, 't, 'e) process \<Rightarrow> ('h, 't, 'e) process" where
  "JNIThreadHelper_dtor this t w =
     (if helper_attached this then
        (case helper_jvm this of
           None \<Rightarrow> w
         | Some vm \<Rightarrow>
             (case call_DetachCurrentThread vm t w of
                (_, w1) \<Rightarrow> LOGI ''Thread detached from JVM'' [] w1))
      else w)"

definition getEnv :: "('h, 't, 'e) JNIThreadHelper \<Rightarrow> 'e option" where
  "getEnv this = helper_env this"

definition isValid :: "('h, 't, 'e) JNIThreadHelper \<Rightarrow> bool" where
  "isValid this = (helper_env this \<noteq> None)"

section \<open>The guarded call\<close>

text \<open>
  A thrown object, as the handler \<^verbatim>\<open>catch (const std::exception& e)\<close> sees it. The handler
  takes an object only when \<^verbatim>\<open>std::exception\<close> is its type or an unambiguous public base
  of its type; \<^verbatim>\<open>e.what()\<close> then gives a text. An object whose type has \<^verbatim>\<open>std::exception\<close>
  as a base twice over, or only through private or protected inheritance, or not at all
  (a number, a string, a pointer to an exception), is not taken.
\<close>

datatype std_exception_base =
    Unambiguous_public_base string
  | Ambiguous_base
  | Inaccessible_base
  | Not_a_base

datatype 'x thrown = Thrown (exception_base: std_exception_base) (thrown_value: 'x)

text \<open>
  \<^verbatim>\<open>detector.detect(frame)\<close> is the caller's code. It returns a result or throws an object;
  it may change its own state \<open>'d\<close> and the process. \<open>ResultType\<close> is what evaluating
  \<^verbatim>\<open>typename DetectorType::ResultType{}\<close> does: it gives the default result, or the
  constructor of the caller's type throws.
\<close>

datatype ('r, 'x) outcome = Returns 'r | Throws "'x thrown"

record ('h, 't, 'e, 'd, 'f, 'r, 'x) DetectorType =
  detect :: "'d \<Rightarrow> 'f \<Rightarrow> ('h, 't, 'e) process \<Rightarrow> ('r, 'x) outcome \<times> 'd \<times> ('h, 't, 'e) process"
  ResultType :: "'x thrown + 'r"

text \<open>
  \<^verbatim>\<open>std::mutex\<close> belongs to the C++ library. \<open>'m\<close> is the state of one mutex and
  \<open>mutex_init\<close> the state a default-constructed one has. \<open>mutex_lock m t\<close> is thread \<open>t\<close>
  calling \<^verbatim>\<open>lock()\<close>: \<open>None\<close> when the call does not return (the mutex is held and nobody
  releases it), \<open>Some (Inl e)\<close> when it throws (\<^verbatim>\<open>std::system_error\<close>), \<open>Some (Inr m')\<close> when
  the thread gets the mutex. \<open>mutex_unlock\<close> is \<^verbatim>\<open>unlock()\<close>, which does not throw.
\<close>

record ('m, 't, 'x) std_mutex =
  mutex_init :: 'm
  mutex_lock :: "'m \<Rightarrow> 't \<Rightarrow> ('x thrown + 'm) option"
  mutex_unlock :: "'m \<Rightarrow> 't \<Rightarrow> 'm"

text \<open>
  \<^verbatim>\<open>class ThreadSafeDetector\<close>. Its members \<^verbatim>\<open>detector_mutex_\<close> and \<^verbatim>\<open>jvm_\<close> are the fields
  \<open>detector_mutex\<close> and \<open>detector_jvm\<close>.
\<close>

record ('h, 't, 'e, 'm) ThreadSafeDetector =
  detector_mutex :: 'm
  detector_jvm :: "('h, 't, 'e) JavaVM option"

definition ThreadSafeDetector_ctor ::
  "('m, 't, 'x) std_mutex \<Rightarrow> ('h, 't, 'e) JavaVM option \<Rightarrow> ('h, 't, 'e) process
     \<Rightarrow> ('h, 't, 'e, 'm) ThreadSafeDetector \<times> ('h, 't, 'e) process" where
  "ThreadSafeDetector_ctor MX jvm w =
     (\<lparr>detector_mutex = mutex_init MX, detector_jvm = jvm\<rparr>,
      LOGI ''ThreadSafeDetector initialized'' [] w)"

text \<open>
  How a call of \<^verbatim>\<open>detectWithThreadSafety\<close> that has not returned a value ends. An object no
  handler of the function takes goes to the callers: \<open>handler_above e\<close> says whether some
  enclosing handler takes \<open>e\<close>, with no \<^verbatim>\<open>noexcept\<close> function in between. If one does,
  the locals of the function are destroyed and the object arrives there (\<open>Propagates\<close>).
  If none does, \<^verbatim>\<open>std::terminate\<close> ends the process (\<open>Terminates\<close>); the search for a
  handler fails before any frame is unwound, so no destructor of the function has run.
\<close>

datatype 'a escape = Propagates 'a | Terminates 'a

definition uncaught :: "('a \<Rightarrow> bool) \<Rightarrow> 'a \<Rightarrow> 's \<Rightarrow> 's \<Rightarrow> ('a escape + 'r) \<times> 's" where
  "uncaught handler_above e unwound at_throw =
     (if handler_above e then (Inl (Propagates e), unwound) else (Inl (Terminates e), at_throw))"

text \<open>
  Leaving the function body destroys its two locals in reverse order: \<^verbatim>\<open>jni_helper\<close>
  first, then \<^verbatim>\<open>lock\<close>, which releases the mutex.
\<close>

definition scope_exit ::
  "('m, 't, 'x) std_mutex \<Rightarrow> ('h, 't, 'e, 'm) ThreadSafeDetector \<Rightarrow> ('h, 't, 'e) JNIThreadHelper
     \<Rightarrow> 'd \<Rightarrow> 't \<Rightarrow> ('h, 't, 'e) process
     \<Rightarrow> ('h, 't, 'e, 'm) ThreadSafeDetector \<times> 'd \<times> ('h, 't, 'e) process" where
  "scope_exit MX this jni_helper detector t w =
     (let w1 = JNIThreadHelper_dtor jni_helper t w;
          this1 = this\<lparr>detector_mutex := mutex_unlock MX (detector_mutex this) t\<rparr>
      in (this1, detector, w1))"

text \<open>
  The result is \<open>None\<close> when the call waits for the mutex for ever; otherwise it is how
  the call ended (\<open>Inr r\<close>: it returned \<open>r\<close>; \<open>Inl\<close>: an object left it) with the wrapper,
  the detector and the process as they are then. The lock is taken before the
  \<^verbatim>\<open>try\<close> block and before \<^verbatim>\<open>jni_helper\<close> exists. Both \<^verbatim>\<open>return\<close> statements that build the
  default result stand outside the \<^verbatim>\<open>try\<close> block or inside the handler, so a throwing
  constructor of the result type is not caught either.
\<close>

definition detectWithThreadSafety ::
  "('m, 't, 'x) std_mutex \<Rightarrow> ('x thrown \<Rightarrow> bool) \<Rightarrow> ('h, 't, 'e, 'm) ThreadSafeDetector
     \<Rightarrow> ('h, 't, 'e, 'd, 'f, 'r, 'x) DetectorType \<Rightarrow> 'd \<Rightarrow> 'f \<Rightarrow> 't \<Rightarrow> ('h, 't, 'e) process
     \<Rightarrow> (('x thrown escape + 'r)
          \<times> ('h, 't, 'e, 'm) ThreadSafeDetector \<times> 'd \<times> ('h, 't, 'e) process) option" where
  "detectWithThreadSafety MX handler_above this D detector frame t w =
     (case mutex_lock MX (detector_mutex this) t of
        None \<Rightarrow> None
      | Some (Inl e) \<Rightarrow>
          Some (uncaught handler_above e (this, detector, w) (this, detector, w))
      | Some (Inr m) \<Rightarrow>
          (let this1 = this\<lparr>detector_mutex := m\<rparr> in
           case JNIThreadHelper_ctor (detector_jvm this1) t w of
             (jni_helper, w1) \<Rightarrow>
               if \<not> isValid jni_helper then
                 (let w2 = LOGE ''Failed to attach thread for detection'' [] w1 in
                  case ResultType D of
                    Inr r \<Rightarrow> Some (Inr r, scope_exit MX this1 jni_helper detector t w2)
                  | Inl e \<Rightarrow>
                      Some (uncaught handler_above e
                              (scope_exit MX this1 jni_helper detector t w2)
                              (this1, detector, w2)))
               else
                 (case detect D detector frame w1 of
                    (Returns r, detector1, w2) \<Rightarrow>
                      Some (Inr r, scope_exit MX this1 jni_helper detector1 t w2)
                  | (Throws e, detector1, w2) \<Rightarrow>
                      (case exception_base e of
                         Unambiguous_public_base what \<Rightarrow>
                           (let w3 = LOGE ''Detection failed: %s'' [ArgStr what] w2 in
                            case ResultType D of
                              Inr r \<Rightarrow> Some (Inr r, scope_exit MX this1 jni_helper detector1 t w3)
                            | Inl e1 \<Rightarrow>
                                Some (uncaught handler_above e1
                                        (scope_exit MX this1 jni_helper detector1 t w3)
                                        (this1, detector1, w3)))
                       | _ \<Rightarrow>
                           Some (uncaught handler_above e
                                   (scope_exit MX this1 jni_helper detector1 t w2)
                                   (this1, detector1, w2))))))"

lemmas token_defs =
  JNIThreadHelper_ctor_def JNIThreadHelper_dtor_def isValid_def getEnv_def
  call_GetEnv_def call_AttachCurrentThread_def call_DetachCurrentThread_def LOGI_def LOGE_def

section \<open>Sequences of calls\<close>

text \<open>\<open>n\<close> calls of attach in a row on thread \<open>t\<close>, with the value each returned.\<close>

fun attach_repeatedly ::
  "nat \<Rightarrow> 't \<Rightarrow> ('h, 't, 'e) process \<Rightarrow> jboolean list \<times> ('h, 't, 'e) process" where
  "attach_repeatedly 0 t w = ([], w)"
| "attach_repeatedly (Suc n) t w =
     (case attachCurrentThread t w of
        (r, w1) \<Rightarrow> (case attach_repeatedly n t w1 of (rs, w2) \<Rightarrow> (r # rs, w2)))"

text \<open>Any interleaving of the three thread-management entry points, from any threads.\<close>

datatype 't entry_call = Attach 't | Detach 't | IsAttached 't

fun run_entry :: "'t entry_call \<Rightarrow> ('h, 't, 'e) process \<Rightarrow> ('h, 't, 'e) process" where
  "run_entry (Attach t) w = snd (attachCurrentThread t w)"
| "run_entry (Detach t) w = detachCurrentThread t w"
| "run_entry (IsAttached t) w = snd (isCurrentThreadAttached t w)"

fun run_entries :: "'t entry_call list \<Rightarrow> ('h, 't, 'e) process \<Rightarrow> ('h, 't, 'e) process" where
  "run_entries [] w = w"
| "run_entries (c # cs) w = run_entries cs (run_entry c w)"

section \<open>What the runtime is expected to do\<close>

text \<open>
  The attachment state of a thread belongs to the runtime; the module sees it through
  \<^verbatim>\<open>GetEnv\<close> with a null out parameter and version 1.6, as its own query does.
\<close>

definition thread_env_status :: "('h, 't, 'e) JavaVM \<Rightarrow> 'h \<Rightarrow> 't \<Rightarrow> jint" where
  "thread_env_status vm h t = fst (GetEnv vm h t None JNI_VERSION_1_6)"

definition is_detached :: "('h, 't, 'e) JavaVM \<Rightarrow> 'h \<Rightarrow> 't \<Rightarrow> bool" where
  "is_detached vm h t = (thread_env_status vm h t = JNI_EDETACHED)"

definition has_valid_env :: "('h, 't, 'e) JavaVM \<Rightarrow> 'h \<Rightarrow> 't \<Rightarrow> bool" where
  "has_valid_env vm h t = (thread_env_status vm h t = JNI_OK)"

text \<open>
  The parts of the JNI contract that statements about the attachment state rest on. Each
  is a property of the runtime alone, and each theorem names the ones it uses.
  \<^item> an attach request answered \<^verbatim>\<open>JNI_OK\<close> leaves the thread with a valid environment;
  \<^item> an attach request answered otherwise leaves every thread's status as it was;
  \<^item> a detach request leaves the calling thread detached;
  \<^item> a detach request leaves every other thread's status as it was;
  \<^item> the runtime knows version 1.6: the query answers \<^verbatim>\<open>JNI_OK\<close> or \<^verbatim>\<open>JNI_EDETACHED\<close>.
\<close>

definition attach_ok_gives_env :: "('h, 't, 'e) JavaVM \<Rightarrow> bool" where
  "attach_ok_gives_env vm =
     (\<forall>h t p. fst (fst (AttachCurrentThread vm h t p)) = JNI_OK
        \<longrightarrow> has_valid_env vm (snd (AttachCurrentThread vm h t p)) t)"

definition attach_refused_changes_nothing :: "('h, 't, 'e) JavaVM \<Rightarrow> bool" where
  "attach_refused_changes_nothing vm =
     (\<forall>h t p u. fst (fst (AttachCurrentThread vm h t p)) \<noteq> JNI_OK
        \<longrightarrow> thread_env_status vm (snd (AttachCurrentThread vm h t p)) u = thread_env_status vm h u)"

definition detach_detaches :: "('h, 't, 'e) JavaVM \<Rightarrow> bool" where
  "detach_detaches vm = (\<forall>h t. is_detached vm (snd (DetachCurrentThread vm h t)) t)"

definition detach_is_local :: "('h, 't, 'e) JavaVM \<Rightarrow> bool" where
  "detach_is_local vm =
     (\<forall>h t u. u \<noteq> t
        \<longrightarrow> thread_env_status vm (snd (DetachCurrentThread vm h t)) u = thread_env_status vm h u)"

definition knows_version_1_6 :: "('h, 't, 'e) JavaVM \<Rightarrow> bool" where
  "knows_version_1_6 vm = (\<forall>h t. has_valid_env vm h t \<or> is_detached vm h t)"

section \<open>A reference runtime\<close>

text \<open>
  A small runtime to run the module against: it keeps the set of attached threads and
  whether it still accepts attachment (it does not while shutting down). \<open>ref_vm v\<close> is
  the function table of such a runtime that knows the JNI versions up to \<open>v\<close>. Threads and
  environments are numbers; the environment of thread \<open>t\<close> is \<open>t\<close>.
\<close>

record ref_host =
  attached_threads :: "nat set"
  accepts_attach :: bool

definition ref_GetEnv :: "jint \<Rightarrow> ref_host \<Rightarrow> nat \<Rightarrow> nat option \<Rightarrow> jint \<Rightarrow> jint \<times> nat option" where
  "ref_GetEnv v h t penv version =
     (if t \<notin> attached_threads h then (JNI_EDETACHED, None)
      else if version \<le> v then (JNI_OK, Some t)
      else (JNI_EVERSION, None))"

definition ref_AttachCurrentThread ::
  "ref_host \<Rightarrow> nat \<Rightarrow> nat option \<Rightarrow> (jint \<times> nat option) \<times> ref_host" where
  "ref_AttachCurrentThread h t penv =
     (if t \<in> attached_threads h then ((JNI_OK, Some t), h)
      else if accepts_attach h
      then ((JNI_OK, Some t), h\<lparr>attached_threads := insert t (attached_threads h)\<rparr>)
      else ((JNI_ERR, None), h))"

definition ref_DetachCurrentThread :: "ref_host \<Rightarrow> nat \<Rightarrow> jint \<times> ref_host" where
  "ref_DetachCurrentThread h t =
     (if t \<in> attached_threads h
      then (JNI_OK, h\<lparr>attached_threads := attached_threads h - {t}\<rparr>)
      else (JNI_EDETACHED, h))"

definition ref_vm :: "jint \<Rightarrow> (ref_host, nat, nat) JavaVM" where
  "ref_vm v =
     \<lparr>GetEnv = ref_GetEnv v,
      AttachCurrentThread = ref_AttachCurrentThread,
      DetachCurrentThread = ref_DetachCurrentThread\<rparr>"

text \<open>
  A process whose module has been loaded into a runtime of version \<open>v\<close> with the threads
  \<open>ts\<close> attached, and one whose load entry point has not run.
\<close>

definition loaded_process :: "jint \<Rightarrow> nat set \<Rightarrow> bool \<Rightarrow> (ref_host, nat, nat) process" where
  "loaded_process v ts acc =
     \<lparr>g_jvm = Some (ref_vm v),
      host = \<lparr>attached_threads = ts, accepts_attach = acc\<rparr>,
      calls = [], logcat = []\<rparr>"

definition unloaded_process :: "nat set \<Rightarrow> (ref_host, nat, nat) process" where
  "unloaded_process ts =
     \<lparr>g_jvm = None,
      host = \<lparr>attached_threads = ts, accepts_attach = True\<rparr>,
      calls = [], logcat = []\<rparr>"

text \<open>
  Units of work to run the guarded call on: \<open>fixed_detector out\<close> ignores the frame and
  the process and ends with the outcome \<open>out\<close>; its results are lists of numbers, the
  default result is the empty list, and what it throws carries a number.
\<close>

definition fixed_detector ::
  "(nat list, nat) outcome \<Rightarrow> (ref_host, nat, nat, unit, unit, nat list, nat) DetectorType" where
  "fixed_detector out = \<lparr>detect = (\<lambda>d f w. (out, d, w)), ResultType = Inr []\<rparr>"

text \<open>
  A mutex that records its owner: a free one is taken, a held one makes the caller wait,
  and \<^verbatim>\<open>lock()\<close> never throws.
\<close>

definition ref_mutex :: "(nat option, nat, nat) std_mutex" where
  "ref_mutex =
     \<lparr>mutex_init = None,
      mutex_lock = (\<lambda>m t. case m of None \<Rightarrow> Some (Inr (Some t)) | Some u \<Rightarrow> None),
      mutex_unlock = (\<lambda>m t. None)\<rparr>"

text \<open>
  The wrapper as its constructor leaves it, for a runtime of version 1.6; and the two
  call sites: one under a handler that takes every object, one under no handler.
\<close>

definition ref_wrapper :: "(ref_host, nat, nat, nat option) ThreadSafeDetector" where
  "ref_wrapper = \<lparr>detector_mutex = None, detector_jvm = Some (ref_vm JNI_VERSION_1_6)\<rparr>"

definition catch_all_above :: "nat thrown \<Rightarrow> bool" where
  "catch_all_above e = True"

definition no_handler_above :: "nat thrown \<Rightarrow> bool" where
  "no_handler_above e = False"

lemmas jni_consts =
  JNI_OK_def JNI_ERR_def JNI_EDETACHED_def JNI_EVERSION_def JNI_VERSION_1_6_def
  JNI_TRUE_def JNI_FALSE_def

lemmas ref_defs =
  ref_vm_def ref_GetEnv_def ref_AttachCurrentThread_def ref_DetachCurrentThread_def
  loaded_process_def unloaded_process_def fixed_detector_def ref_mutex_def ref_wrapper_def
  catch_all_above_def no_handler_above_def

lemmas status_defs = thread_env_status_def is_detached_def has_valid_env_def

section \<open>The reference runtime keeps the contract\<close>

lemma ref_vm_attach_ok_gives_env:
  "JNI_VERSION_1_6 \<le> v \<Longrightarrow> attach_ok_gives_env (ref_vm v)"
  by (simp add: attach_ok_gives_env_def status_defs ref_defs jni_consts)

lemma ref_vm_attach_refused_changes_nothing: "attach_refused_changes_nothing (ref_vm v)"
  by (simp add: attach_refused_changes_nothing_def status_defs ref_defs jni_consts)

lemma ref_vm_detach_detaches: "detach_detaches (ref_vm v)"
  by (simp add: detach_detaches_def status_defs ref_defs jni_consts)

lemma ref_vm_detach_is_local: "detach_is_local (ref_vm v)"
  by (simp add: detach_is_local_def status_defs ref_defs jni_consts)

lemma ref_vm_knows_version_1_6:
  "JNI_VERSION_1_6 \<le> v \<Longrightarrow> knows_version_1_6 (ref_vm v)"
  by (simp add: knows_version_1_6_def status_defs ref_defs jni_consts)

section \<open>What each entry point returns\<close>

lemma JNI_OK_neq_EDETACHED: "JNI_OK \<noteq> JNI_EDETACHED"
  by (simp add: jni_consts)

lemma valid_env_not_detached: "has_valid_env vm h t \<Longrightarrow> \<not> is_detached vm h t"
  by (simp add: status_defs JNI_OK_neq_EDETACHED)

lemma attach_not_detached:
  "g_jvm w = Some vm \<Longrightarrow> \<not> is_detached vm (host w) t \<Longrightarrow>
     attachCurrentThread t w = (JNI_TRUE, w\<lparr>calls := calls w @ [CallGetEnv t JNI_VERSION_1_6]\<rparr>)"
  by (auto simp add: entry_defs status_defs split: prod.splits)

lemma attach_detached_accepted:
  "g_jvm w = Some vm \<Longrightarrow> GetEnv vm (host w) t None JNI_VERSION_1_6 = (JNI_EDETACHED, p) \<Longrightarrow>
   fst (fst (AttachCurrentThread vm (host w) t p)) = JNI_OK \<Longrightarrow>
     attachCurrentThread t w =
       (JNI_TRUE,
        w\<lparr>host := snd (AttachCurrentThread vm (host w) t p),
          calls := calls w @ [CallGetEnv t JNI_VERSION_1_6, CallAttachCurrentThread t],
          logcat := logcat w @ [ANDROID_LOG_INFO ''Thread successfully attached to JVM'' []]\<rparr>)"
  by (auto simp add: entry_defs split: prod.splits)

lemma attach_detached_refused:
  "g_jvm w = Some vm \<Longrightarrow> GetEnv vm (host w) t None JNI_VERSION_1_6 = (JNI_EDETACHED, p) \<Longrightarrow>
   fst (fst (AttachCurrentThread vm (host w) t p)) \<noteq> JNI_OK \<Longrightarrow>
     attachCurrentThread t w =
       (JNI_FALSE,
        w\<lparr>host := snd (AttachCurrentThread vm (host w) t p),
          calls := calls w @ [CallGetEnv t JNI_VERSION_1_6, CallAttachCurrentThread t],
          logcat := logcat w @ [ANDROID_LOG_ERROR ''Failed to attach thread: %d''
                      [ArgInt (fst (fst (AttachCurrentThread vm (host w) t p)))]]\<rparr>)"
  by (auto simp add: entry_defs split: prod.splits)

lemma detach_handle_set:
  "g_jvm w = Some vm \<Longrightarrow>
     detachCurrentThread t w =
       w\<lparr>host := snd (DetachCurrentThread vm (host w) t),
         calls := calls w @ [CallDetachCurrentThread t],
         logcat := logcat w @ [ANDROID_LOG_INFO ''Thread detached from JVM'' []]\<rparr>"
  by (simp add: entry_defs split: prod.splits)

lemma query_handle_set:
  "g_jvm w = Some vm \<Longrightarrow>
     isCurrentThreadAttached t w =
       (if has_valid_env vm (host w) t then JNI_TRUE else JNI_FALSE,
        w\<lparr>calls := calls w @ [CallGetEnv t JNI_VERSION_1_6]\<rparr>)"
  by (simp add: entry_defs status_defs split: prod.splits)

lemma attach_keeps_g_jvm: "g_jvm (snd (attachCurrentThread t w)) = g_jvm w"
  by (auto simp add: entry_defs split: option.splits prod.splits)

lemma detach_keeps_g_jvm: "g_jvm (detachCurrentThread t w) = g_jvm w"
  by (auto simp add: entry_defs split: option.splits prod.splits)

lemma query_keeps_g_jvm: "g_jvm (snd (isCurrentThreadAttached t w)) = g_jvm w"
  by (auto simp add: entry_defs split: option.splits prod.splits)

lemma run_entry_keeps_g_jvm: "g_jvm (run_entry c w) = g_jvm w"
  by (cases c) (simp_all add: attach_keeps_g_jvm detach_keeps_g_jvm query_keeps_g_jvm)

lemma JNI_TRUE_neq_FALSE: "JNI_TRUE \<noteq> JNI_FALSE"
  by (simp add: jni_consts)

lemma unset_handle_entry_points:
  "g_jvm w = None \<Longrightarrow>
     isCurrentThreadAttached t w = (JNI_FALSE, w)
   \<and> fst (attachCurrentThread t w) = JNI_FALSE
   \<and> detachCurrentThread t w = w"
  by (simp add: entry_defs)

lemma attach_repeatedly_not_detached:
  "g_jvm w = Some vm \<Longrightarrow> \<not> is_detached vm (host w) t \<Longrightarrow>
     attach_repeatedly n t w =
       (replicate n JNI_TRUE, w\<lparr>calls := calls w @ replicate n (CallGetEnv t JNI_VERSION_1_6)\<rparr>)"
proof (induction n arbitrary: w)
  case 0
  then show ?case by simp
next
  case (Suc n)
  let ?w1 = "w\<lparr>calls := calls w @ [CallGetEnv t JNI_VERSION_1_6]\<rparr>"
  have a: "attachCurrentThread t w = (JNI_TRUE, ?w1)"
    using Suc.prems by (rule attach_not_detached)
  have "g_jvm ?w1 = Some vm" "\<not> is_detached vm (host ?w1) t"
    using Suc.prems by simp_all
  then have "attach_repeatedly n t ?w1 =
      (replicate n JNI_TRUE, ?w1\<lparr>calls := calls ?w1 @ replicate n (CallGetEnv t JNI_VERSION_1_6)\<rparr>)"
    by (rule Suc.IH)
  with a show ?case by (simp add: replicate_app_Cons_same)
qed

section \<open>Null-handle safety\<close>

text \<open>
  C3. While the runtime handle is unset, attach returns false, the query returns false
  and detach does nothing; none of the three issues a request to the runtime (there is no
  handle to dereference) or touches the host state.
\<close>

theorem unset_handle_operations_fail_safe:
  "g_jvm w = None \<Longrightarrow>
     fst (attachCurrentThread t w) = JNI_FALSE
   \<and> calls (snd (attachCurrentThread t w)) = calls w
   \<and> host (snd (attachCurrentThread t w)) = host w
   \<and> isCurrentThreadAttached t w = (JNI_FALSE, w)
   \<and> detachCurrentThread t w = w"
  by (simp add: entry_defs)


theorem unset_handle_operations_fail_safe_witness:
  "g_jvm (unloaded_process {7}) = None
   \<and> fst (attachCurrentThread 7 (unloaded_process {7})) = JNI_FALSE
   \<and> isCurrentThreadAttached 7 (unloaded_process {7}) = (JNI_FALSE, unloaded_process {7})
   \<and> detachCurrentThread 7 (unloaded_process {7}) = unloaded_process {7}"
  using unset_handle_operations_fail_safe [of "unloaded_process {7}" 7]
  by (simp add: unloaded_process_def)

section \<open>The load entry point and the runtime handle\<close>

text \<open>
  C8. The load entry point stores the value it is given in the process-wide handle and
  returns the version token \<^verbatim>\<open>JNI_VERSION_1_6\<close> (it has no path that returns a failure
  token); it issues no request and leaves the host state alone. Given a non-null handle,
  the handle is set afterwards. No other operation of the module assigns the handle:
  attach, detach, the query, and the construction and destruction of a scoped token all
  leave it as it was.
\<close>

theorem load_entry_point_stores_handle:
  "fst (JNI_OnLoad vm w) = JNI_VERSION_1_6
   \<and> g_jvm (snd (JNI_OnLoad vm w)) = vm
   \<and> (vm \<noteq> None \<longrightarrow> g_jvm (snd (JNI_OnLoad vm w)) \<noteq> None)
   \<and> host (snd (JNI_OnLoad vm w)) = host w
   \<and> calls (snd (JNI_OnLoad vm w)) = calls w
   \<and> g_jvm (snd (attachCurrentThread t w)) = g_jvm w
   \<and> g_jvm (detachCurrentThread t w) = g_jvm w
   \<and> g_jvm (snd (isCurrentThreadAttached t w)) = g_jvm w
   \<and> g_jvm (snd (JNIThreadHelper_ctor jvm t w)) = g_jvm w
   \<and> g_jvm (JNIThreadHelper_dtor tok t w) = g_jvm w"
  by (auto simp add: JNI_OnLoad_def entry_defs token_defs Let_def split: option.splits prod.splits)

theorem load_entry_point_stores_handle_witness:
  "Some (ref_vm JNI_VERSION_1_6) \<noteq> None
   \<and> g_jvm (snd (JNI_OnLoad (Some (ref_vm JNI_VERSION_1_6)) (unloaded_process {})))
       = Some (ref_vm JNI_VERSION_1_6)
   \<and> fst (JNI_OnLoad (Some (ref_vm JNI_VERSION_1_6)) (unloaded_process {})) = 0x10006"
  using load_entry_point_stores_handle
          [where vm = "Some (ref_vm JNI_VERSION_1_6)" and w = "unloaded_process {}"]
  by (simp add: JNI_VERSION_1_6_def)

text \<open>
  C10. Attach, detach and the query never write the runtime handle: after one call of any
  of them, and so after any sequence of such calls from any threads, the handle has the
  value it had before. The only assignment to it is the one in the load entry point.
\<close>

theorem thread_entry_points_keep_handle:
  "g_jvm (snd (attachCurrentThread t w)) = g_jvm w
   \<and> g_jvm (detachCurrentThread t w) = g_jvm w
   \<and> g_jvm (snd (isCurrentThreadAttached t w)) = g_jvm w
   \<and> g_jvm (run_entries cs w) = g_jvm w"
proof -
  have "g_jvm (run_entries cs w) = g_jvm w"
    by (induction cs arbitrary: w) (simp_all add: run_entry_keeps_g_jvm)
  then show ?thesis
    by (simp add: attach_keeps_g_jvm detach_keeps_g_jvm query_keeps_g_jvm)
qed

theorem thread_entry_points_keep_handle_witness:
  "g_jvm (run_entries [Attach 7, IsAttached 7, Detach 7, Detach 8]
            (loaded_process JNI_VERSION_1_6 {} True))
     = Some (ref_vm JNI_VERSION_1_6)"
  using thread_entry_points_keep_handle
          [where cs = "[Attach 7, IsAttached 7, Detach 7, Detach 8]"
             and w = "loaded_process JNI_VERSION_1_6 {} True"]
  by (simp add: loaded_process_def)

section \<open>Attach\<close>

text \<open>
  C2. Attach is idempotent per thread. With the handle set, a runtime that accepts
  attachment in the present state, and a runtime whose accepted attach gives the thread an
  environment: the first call returns true and leaves the thread attached, having asked
  for attachment once if the thread was detached; each of the \<open>n\<close> calls that follow on the
  same thread returns true and issues nothing but its query, so attachment is not
  requested again and the host state stays as the first call left it.
\<close>

theorem attach_idempotent:
  assumes handle: "g_jvm w = Some vm"
    and contract: "attach_ok_gives_env vm"
    and accepts: "\<forall>p. fst (fst (AttachCurrentThread vm (host w) t p)) = JNI_OK"
  shows "fst (attachCurrentThread t w) = JNI_TRUE
       \<and> \<not> is_detached vm (host (snd (attachCurrentThread t w))) t
       \<and> (is_detached vm (host w) t \<longrightarrow>
            calls (snd (attachCurrentThread t w)) =
              calls w @ [CallGetEnv t JNI_VERSION_1_6, CallAttachCurrentThread t])
       \<and> attach_repeatedly n t (snd (attachCurrentThread t w)) =
           (replicate n JNI_TRUE,
            (snd (attachCurrentThread t w))
              \<lparr>calls := calls (snd (attachCurrentThread t w))
                          @ replicate n (CallGetEnv t JNI_VERSION_1_6)\<rparr>)"
proof -
  obtain w1 where w1: "w1 = snd (attachCurrentThread t w)" by simp
  have first: "fst (attachCurrentThread t w) = JNI_TRUE
       \<and> \<not> is_detached vm (host w1) t
       \<and> g_jvm w1 = Some vm
       \<and> (is_detached vm (host w) t \<longrightarrow>
            calls w1 = calls w @ [CallGetEnv t JNI_VERSION_1_6, CallAttachCurrentThread t])"
  proof (cases "is_detached vm (host w) t")
    case False
    with handle show ?thesis
      by (simp add: w1 attach_not_detached)
  next
    case True
    obtain p where p: "GetEnv vm (host w) t None JNI_VERSION_1_6 = (JNI_EDETACHED, p)"
      using True by (cases "GetEnv vm (host w) t None JNI_VERSION_1_6") (simp add: status_defs)
    have ok: "fst (fst (AttachCurrentThread vm (host w) t p)) = JNI_OK"
      using accepts by simp
    have "has_valid_env vm (snd (AttachCurrentThread vm (host w) t p)) t"
      using contract ok by (simp add: attach_ok_gives_env_def)
    then have "\<not> is_detached vm (snd (AttachCurrentThread vm (host w) t p)) t"
      by (rule valid_env_not_detached)
    then show ?thesis
      using handle by (simp add: w1 attach_detached_accepted [OF handle p ok])
  qed
  then have "attach_repeatedly n t w1 =
      (replicate n JNI_TRUE, w1\<lparr>calls := calls w1 @ replicate n (CallGetEnv t JNI_VERSION_1_6)\<rparr>)"
    by (simp add: attach_repeatedly_not_detached)
  with first show ?thesis by (simp add: w1)
qed

theorem attach_idempotent_witness:
  "g_jvm (loaded_process JNI_VERSION_1_6 {} True) = Some (ref_vm JNI_VERSION_1_6)
   \<and> attach_ok_gives_env (ref_vm JNI_VERSION_1_6)
   \<and> (\<forall>p. fst (fst (AttachCurrentThread (ref_vm JNI_VERSION_1_6)
                       (host (loaded_process JNI_VERSION_1_6 {} True)) 7 p)) = JNI_OK)
   \<and> fst (attachCurrentThread 7 (loaded_process JNI_VERSION_1_6 {} True)) = JNI_TRUE
   \<and> fst (attach_repeatedly 3 7 (snd (attachCurrentThread 7 (loaded_process JNI_VERSION_1_6 {} True))))
       = [JNI_TRUE, JNI_TRUE, JNI_TRUE]
   \<and> calls (snd (attach_repeatedly 3 7
               (snd (attachCurrentThread 7 (loaded_process JNI_VERSION_1_6 {} True))))) =
       [CallGetEnv 7 JNI_VERSION_1_6, CallAttachCurrentThread 7,
        CallGetEnv 7 JNI_VERSION_1_6, CallGetEnv 7 JNI_VERSION_1_6, CallGetEnv 7 JNI_VERSION_1_6]"
proof -
  let ?w = "loaded_process JNI_VERSION_1_6 {} True"
  let ?vm = "ref_vm JNI_VERSION_1_6"
  have h1: "g_jvm ?w = Some ?vm"
    by (simp add: loaded_process_def)
  have h2: "attach_ok_gives_env ?vm"
    by (simp add: ref_vm_attach_ok_gives_env)
  have h3: "\<forall>p. fst (fst (AttachCurrentThread ?vm (host ?w) 7 p)) = JNI_OK"
    by (simp add: ref_defs)
  have h4: "is_detached ?vm (host ?w) 7"
    by (simp add: status_defs ref_defs)
  have h5: "calls ?w = []"
    by (simp add: loaded_process_def)
  note r = attach_idempotent [OF h1 h2 h3, of 3]
  have r1: "fst (attachCurrentThread 7 ?w) = JNI_TRUE"
    using r by blast
  have r2: "calls (snd (attachCurrentThread 7 ?w))
              = [CallGetEnv 7 JNI_VERSION_1_6, CallAttachCurrentThread 7]"
    using r h4 h5 by simp
  have r3: "attach_repeatedly 3 7 (snd (attachCurrentThread 7 ?w)) =
           (replicate 3 JNI_TRUE,
            (snd (attachCurrentThread 7 ?w))
              \<lparr>calls := calls (snd (attachCurrentThread 7 ?w))
                          @ replicate 3 (CallGetEnv 7 JNI_VERSION_1_6)\<rparr>)"
    using r by blast
  have r4: "fst (attach_repeatedly 3 7 (snd (attachCurrentThread 7 ?w)))
              = [JNI_TRUE, JNI_TRUE, JNI_TRUE]"
    unfolding r3 by (simp add: numeral_3_eq_3)
  have r5: "calls (snd (attach_repeatedly 3 7 (snd (attachCurrentThread 7 ?w)))) =
       [CallGetEnv 7 JNI_VERSION_1_6, CallAttachCurrentThread 7,
        CallGetEnv 7 JNI_VERSION_1_6, CallGetEnv 7 JNI_VERSION_1_6, CallGetEnv 7 JNI_VERSION_1_6]"
    unfolding r3 by (simp add: r2 numeral_3_eq_3)
  show ?thesis
    using h1 h2 h3 r1 r4 r5 by blast
qed

text \<open>
  C7. When the thread is detached and the runtime answers the attach request with anything
  but \<^verbatim>\<open>JNI_OK\<close>, attach returns false; the handle is the one from before, and the host
  state is exactly what the refused request left, the module doing nothing after it. With
  a runtime whose refused attach changes no thread's status, the calling thread's (and
  every thread's) attachment state is the same after the call as before.
\<close>

theorem attach_refused_returns_false:
  "g_jvm w = Some vm \<Longrightarrow> GetEnv vm (host w) t None JNI_VERSION_1_6 = (JNI_EDETACHED, p) \<Longrightarrow>
   fst (fst (AttachCurrentThread vm (host w) t p)) \<noteq> JNI_OK \<Longrightarrow>
     fst (attachCurrentThread t w) = JNI_FALSE
   \<and> g_jvm (snd (attachCurrentThread t w)) = g_jvm w
   \<and> host (snd (attachCurrentThread t w)) = snd (AttachCurrentThread vm (host w) t p)
   \<and> (attach_refused_changes_nothing vm \<longrightarrow>
        (\<forall>u. thread_env_status vm (host (snd (attachCurrentThread t w))) u
               = thread_env_status vm (host w) u))"
  by (simp add: attach_detached_refused attach_refused_changes_nothing_def)

theorem attach_refused_returns_false_witness:
  "g_jvm (loaded_process JNI_VERSION_1_6 {} False) = Some (ref_vm JNI_VERSION_1_6)
   \<and> GetEnv (ref_vm JNI_VERSION_1_6) (host (loaded_process JNI_VERSION_1_6 {} False)) 7 None
       JNI_VERSION_1_6 = (JNI_EDETACHED, None)
   \<and> fst (fst (AttachCurrentThread (ref_vm JNI_VERSION_1_6)
                 (host (loaded_process JNI_VERSION_1_6 {} False)) 7 None)) \<noteq> JNI_OK
   \<and> attach_refused_changes_nothing (ref_vm JNI_VERSION_1_6)
   \<and> fst (attachCurrentThread 7 (loaded_process JNI_VERSION_1_6 {} False)) = JNI_FALSE
   \<and> g_jvm (snd (attachCurrentThread 7 (loaded_process JNI_VERSION_1_6 {} False)))
       = Some (ref_vm JNI_VERSION_1_6)
   \<and> is_detached (ref_vm JNI_VERSION_1_6)
       (host (snd (attachCurrentThread 7 (loaded_process JNI_VERSION_1_6 {} False)))) 7"
proof -
  let ?w = "loaded_process JNI_VERSION_1_6 {} False"
  let ?vm = "ref_vm JNI_VERSION_1_6"
  have h1: "g_jvm ?w = Some ?vm"
    by (simp add: loaded_process_def)
  have h2: "GetEnv ?vm (host ?w) 7 None JNI_VERSION_1_6 = (JNI_EDETACHED, None)"
    by (simp add: ref_defs)
  have h3: "fst (fst (AttachCurrentThread ?vm (host ?w) 7 None)) \<noteq> JNI_OK"
    by (simp add: ref_defs jni_consts)
  have h4: "attach_refused_changes_nothing ?vm"
    by (rule ref_vm_attach_refused_changes_nothing)
  have h5: "is_detached ?vm (host ?w) 7"
    using h2 by (simp add: status_defs)
  note r = attach_refused_returns_false [OF h1 h2 h3]
  have r1: "fst (attachCurrentThread 7 ?w) = JNI_FALSE"
    using r by blast
  have r2: "g_jvm (snd (attachCurrentThread 7 ?w)) = Some ?vm"
    using r h1 by simp
  have "thread_env_status ?vm (host (snd (attachCurrentThread 7 ?w))) 7
          = thread_env_status ?vm (host ?w) 7"
    using r h4 by blast
  then have r3: "is_detached ?vm (host (snd (attachCurrentThread 7 ?w))) 7"
    using h5 by (simp only: is_detached_def)
  show ?thesis
    using h1 h2 h3 h4 r1 r2 r3 by blast
qed

text \<open>
  C9. With the handle set, whenever the environment query answers anything other than
  \<^verbatim>\<open>JNI_EDETACHED\<close>, error codes such as \<^verbatim>\<open>JNI_EVERSION\<close> included, attach returns true having
  issued its query and nothing else: attachment is never requested and the host state is
  untouched. When that answer is not \<^verbatim>\<open>JNI_OK\<close> either, the thread holds no valid
  environment after the true return, and the query that follows returns false.
\<close>

theorem attach_true_whenever_not_edetached:
  "g_jvm w = Some vm \<Longrightarrow> thread_env_status vm (host w) t \<noteq> JNI_EDETACHED \<Longrightarrow>
     attachCurrentThread t w = (JNI_TRUE, w\<lparr>calls := calls w @ [CallGetEnv t JNI_VERSION_1_6]\<rparr>)
   \<and> (thread_env_status vm (host w) t \<noteq> JNI_OK \<longrightarrow>
        fst (isCurrentThreadAttached t (snd (attachCurrentThread t w))) = JNI_FALSE)"
  by (simp add: attach_not_detached query_handle_set status_defs)

theorem attach_true_whenever_not_edetached_witness:
  "g_jvm (loaded_process 0x10004 {7} True) = Some (ref_vm 0x10004)
   \<and> thread_env_status (ref_vm 0x10004) (host (loaded_process 0x10004 {7} True)) 7 = JNI_EVERSION
   \<and> JNI_EVERSION \<noteq> JNI_EDETACHED \<and> JNI_EVERSION \<noteq> JNI_OK
   \<and> fst (attachCurrentThread 7 (loaded_process 0x10004 {7} True)) = JNI_TRUE
   \<and> calls (snd (attachCurrentThread 7 (loaded_process 0x10004 {7} True)))
       = [CallGetEnv 7 JNI_VERSION_1_6]
   \<and> fst (isCurrentThreadAttached 7 (snd (attachCurrentThread 7 (loaded_process 0x10004 {7} True))))
       = JNI_FALSE"
proof -
  let ?w = "loaded_process 0x10004 {7} True"
  have h1: "g_jvm ?w = Some (ref_vm 0x10004)"
    by (simp add: loaded_process_def)
  have h2: "thread_env_status (ref_vm 0x10004) (host ?w) 7 = JNI_EVERSION"
    by (simp add: status_defs ref_defs jni_consts)
  have h3: "JNI_EVERSION \<noteq> JNI_EDETACHED" "JNI_EVERSION \<noteq> JNI_OK"
    by (simp_all add: jni_consts)
  have h4: "thread_env_status (ref_vm 0x10004) (host ?w) 7 \<noteq> JNI_EDETACHED"
    using h2 h3 by simp
  have h5: "thread_env_status (ref_vm 0x10004) (host ?w) 7 \<noteq> JNI_OK"
    using h2 h3 by simp
  have h6: "calls ?w = []"
    by (simp add: loaded_process_def)
  note r = attach_true_whenever_not_edetached [OF h1 h4]
  have r1: "fst (attachCurrentThread 7 ?w) = JNI_TRUE"
    unfolding conjunct1 [OF r] by simp
  have r2: "calls (snd (attachCurrentThread 7 ?w)) = [CallGetEnv 7 JNI_VERSION_1_6]"
    unfolding conjunct1 [OF r] by (simp add: h6)
  have r3: "fst (isCurrentThreadAttached 7 (snd (attachCurrentThread 7 ?w))) = JNI_FALSE"
    using conjunct2 [OF r] h5 by blast
  show ?thesis
    using h1 h2 h3 r1 r2 r3 by blast
qed

section \<open>Detach\<close>

text \<open>
  C6. With the handle set, detach asks the runtime to detach the calling thread whatever
  the thread's state: there is no query first and no condition but the handle check. The
  runtime's answer is dropped, so nothing is reported when the thread was not attached;
  the only log line is the informational one. The process afterwards is the one before
  with exactly that request made. With a runtime whose detach is local to the calling
  thread, no other thread's attachment state changes.
\<close>

theorem detach_requests_unconditionally:
  "g_jvm w = Some vm \<Longrightarrow>
     detachCurrentThread t w =
       w\<lparr>host := snd (DetachCurrentThread vm (host w) t),
         calls := calls w @ [CallDetachCurrentThread t],
         logcat := logcat w @ [ANDROID_LOG_INFO ''Thread detached from JVM'' []]\<rparr>
   \<and> (detach_is_local vm \<longrightarrow> (\<forall>u. u \<noteq> t \<longrightarrow>
         thread_env_status vm (host (detachCurrentThread t w)) u = thread_env_status vm (host w) u))"
  by (simp add: detach_handle_set detach_is_local_def)

theorem detach_requests_unconditionally_witness:
  "g_jvm (loaded_process JNI_VERSION_1_6 {8} True) = Some (ref_vm JNI_VERSION_1_6)
   \<and> is_detached (ref_vm JNI_VERSION_1_6) (host (loaded_process JNI_VERSION_1_6 {8} True)) 7
   \<and> detach_is_local (ref_vm JNI_VERSION_1_6)
   \<and> calls (detachCurrentThread 7 (loaded_process JNI_VERSION_1_6 {8} True))
       = [CallDetachCurrentThread 7]
   \<and> logcat (detachCurrentThread 7 (loaded_process JNI_VERSION_1_6 {8} True))
       = [ANDROID_LOG_INFO ''Thread detached from JVM'' []]
   \<and> has_valid_env (ref_vm JNI_VERSION_1_6)
       (host (detachCurrentThread 7 (loaded_process JNI_VERSION_1_6 {8} True))) 8"
proof -
  let ?w = "loaded_process JNI_VERSION_1_6 {8} True"
  let ?vm = "ref_vm JNI_VERSION_1_6"
  have h1: "g_jvm ?w = Some ?vm"
    by (simp add: loaded_process_def)
  have h2: "is_detached ?vm (host ?w) 7"
    by (simp add: status_defs ref_defs)
  have h3: "has_valid_env ?vm (host ?w) 8"
    by (simp add: status_defs ref_defs)
  have h4: "detach_is_local ?vm"
    by (rule ref_vm_detach_is_local)
  note r = detach_requests_unconditionally [OF h1, of 7]
  have r1: "calls (detachCurrentThread 7 ?w) = [CallDetachCurrentThread 7]"
    unfolding conjunct1 [OF r] by (simp add: loaded_process_def)
  have r2: "logcat (detachCurrentThread 7 ?w) = [ANDROID_LOG_INFO ''Thread detached from JVM'' []]"
    unfolding conjunct1 [OF r] by (simp add: loaded_process_def)
  have "thread_env_status ?vm (host (detachCurrentThread 7 ?w)) 8 = thread_env_status ?vm (host ?w) 8"
    using conjunct2 [OF r] h4 by simp
  then have r3: "has_valid_env ?vm (host (detachCurrentThread 7 ?w)) 8"
    using h3 by (simp only: has_valid_env_def)
  show ?thesis
    using h1 h2 h4 r1 r2 r3 by blast
qed

section \<open>The query\<close>

text \<open>
  C4. The query returns true exactly when the handle is set and the calling thread has a
  valid environment (the runtime answers \<^verbatim>\<open>JNI_OK\<close>), and false otherwise, the unset
  handle included. It writes nothing: handle, host state and log are as before, and the
  only request it issues, when the handle is set, is \<^verbatim>\<open>GetEnv\<close>. Right after an attach that
  returned true it returns true, on a runtime that knows version 1.6 and whose accepted
  attach gives the thread an environment; right after detach it returns false, on a
  runtime whose detach detaches (and always when the handle is unset).
\<close>

theorem query_true_iff_valid_env:
  "(fst (isCurrentThreadAttached t w) = JNI_TRUE \<longleftrightarrow>
      (\<exists>vm. g_jvm w = Some vm \<and> has_valid_env vm (host w) t))
   \<and> (fst (isCurrentThreadAttached t w) = JNI_FALSE \<longleftrightarrow>
      \<not> (\<exists>vm. g_jvm w = Some vm \<and> has_valid_env vm (host w) t))
   \<and> g_jvm (snd (isCurrentThreadAttached t w)) = g_jvm w
   \<and> host (snd (isCurrentThreadAttached t w)) = host w
   \<and> logcat (snd (isCurrentThreadAttached t w)) = logcat w
   \<and> calls (snd (isCurrentThreadAttached t w)) =
       calls w @ (case g_jvm w of None \<Rightarrow> [] | Some vm \<Rightarrow> [CallGetEnv t JNI_VERSION_1_6])
   \<and> ((\<forall>vm. g_jvm w = Some vm \<longrightarrow> attach_ok_gives_env vm \<and> knows_version_1_6 vm)
        \<and> fst (attachCurrentThread t w) = JNI_TRUE \<longrightarrow>
        fst (isCurrentThreadAttached t (snd (attachCurrentThread t w))) = JNI_TRUE)
   \<and> ((\<forall>vm. g_jvm w = Some vm \<longrightarrow> detach_detaches vm) \<longrightarrow>
        fst (isCurrentThreadAttached t (detachCurrentThread t w)) = JNI_FALSE)"
proof (cases "g_jvm w")
  case None
  have q: "isCurrentThreadAttached t w = (JNI_FALSE, w)"
    and a: "fst (attachCurrentThread t w) = JNI_FALSE"
    and d: "detachCurrentThread t w = w"
    using unset_handle_entry_points [OF None, of t] by simp_all
  show ?thesis
    using None JNI_TRUE_neq_FALSE by (simp add: q a d)
next
  case (Some vm)
  note q = query_handle_set [OF Some]
  have iff: "(fst (isCurrentThreadAttached t w) = JNI_TRUE \<longleftrightarrow>
                (\<exists>vm. g_jvm w = Some vm \<and> has_valid_env vm (host w) t))
           \<and> (fst (isCurrentThreadAttached t w) = JNI_FALSE \<longleftrightarrow>
                \<not> (\<exists>vm. g_jvm w = Some vm \<and> has_valid_env vm (host w) t))"
    using Some JNI_TRUE_neq_FALSE by (simp add: q)
  have frame: "g_jvm (snd (isCurrentThreadAttached t w)) = g_jvm w
             \<and> host (snd (isCurrentThreadAttached t w)) = host w
             \<and> logcat (snd (isCurrentThreadAttached t w)) = logcat w
             \<and> calls (snd (isCurrentThreadAttached t w)) =
                 calls w @ (case g_jvm w of None \<Rightarrow> [] | Some vm \<Rightarrow> [CallGetEnv t JNI_VERSION_1_6])"
    using Some by (simp add: q)
  have after_attach:
    "fst (isCurrentThreadAttached t (snd (attachCurrentThread t w))) = JNI_TRUE"
    if contract: "attach_ok_gives_env vm" "knows_version_1_6 vm"
      and ret: "fst (attachCurrentThread t w) = JNI_TRUE"
  proof (cases "is_detached vm (host w) t")
    case False
    then have "has_valid_env vm (host w) t"
      using contract(2) by (auto simp add: knows_version_1_6_def)
    then show ?thesis
      using Some by (simp add: attach_not_detached [OF Some False] query_handle_set)
  next
    case True
    obtain p where p: "GetEnv vm (host w) t None JNI_VERSION_1_6 = (JNI_EDETACHED, p)"
      using True by (cases "GetEnv vm (host w) t None JNI_VERSION_1_6") (simp add: status_defs)
    have ok: "fst (fst (AttachCurrentThread vm (host w) t p)) = JNI_OK"
    proof (rule ccontr)
      assume "fst (fst (AttachCurrentThread vm (host w) t p)) \<noteq> JNI_OK"
      then have "fst (attachCurrentThread t w) = JNI_FALSE"
        by (simp add: attach_detached_refused [OF Some p])
      with ret show False
        using JNI_TRUE_neq_FALSE by simp
    qed
    have "has_valid_env vm (snd (AttachCurrentThread vm (host w) t p)) t"
      using contract(1) ok by (simp add: attach_ok_gives_env_def)
    then show ?thesis
      using Some by (simp add: attach_detached_accepted [OF Some p ok] query_handle_set)
  qed
  have after_detach:
    "fst (isCurrentThreadAttached t (detachCurrentThread t w)) = JNI_FALSE"
    if contract: "detach_detaches vm"
  proof -
    have "is_detached vm (snd (DetachCurrentThread vm (host w) t)) t"
      using contract by (simp add: detach_detaches_def)
    then have "\<not> has_valid_env vm (snd (DetachCurrentThread vm (host w) t)) t"
      by (auto dest: valid_env_not_detached)
    then show ?thesis
      using Some by (simp add: detach_handle_set [OF Some] query_handle_set)
  qed
  show ?thesis
    using iff frame after_attach after_detach Some by simp
qed

theorem query_true_iff_valid_env_witness:
  "g_jvm (loaded_process JNI_VERSION_1_6 {} True) = Some (ref_vm JNI_VERSION_1_6)
   \<and> attach_ok_gives_env (ref_vm JNI_VERSION_1_6)
   \<and> knows_version_1_6 (ref_vm JNI_VERSION_1_6)
   \<and> detach_detaches (ref_vm JNI_VERSION_1_6)
   \<and> fst (attachCurrentThread 7 (loaded_process JNI_VERSION_1_6 {} True)) = JNI_TRUE
   \<and> fst (isCurrentThreadAttached 7 (loaded_process JNI_VERSION_1_6 {} True)) = JNI_FALSE
   \<and> fst (isCurrentThreadAttached 7 (snd (attachCurrentThread 7 (loaded_process JNI_VERSION_1_6 {} True))))
       = JNI_TRUE
   \<and> fst (isCurrentThreadAttached 7 (detachCurrentThread 7 (loaded_process JNI_VERSION_1_6 {} True)))
       = JNI_FALSE"
proof -
  let ?vm = "ref_vm JNI_VERSION_1_6"
  let ?w = "loaded_process JNI_VERSION_1_6 {} True"
  have g: "g_jvm ?w = Some ?vm"
    by (simp add: loaded_process_def)
  have h1: "\<forall>vm. g_jvm ?w = Some vm \<longrightarrow> attach_ok_gives_env vm \<and> knows_version_1_6 vm"
    by (simp add: g ref_vm_attach_ok_gives_env ref_vm_knows_version_1_6)
  have h2: "\<forall>vm. g_jvm ?w = Some vm \<longrightarrow> detach_detaches vm"
    by (simp add: g ref_vm_detach_detaches)
  have h3: "fst (attachCurrentThread 7 ?w) = JNI_TRUE"
    by (simp add: entry_defs ref_defs jni_consts)
  have h4: "\<not> (\<exists>vm. g_jvm ?w = Some vm \<and> has_valid_env vm (host ?w) 7)"
    by (simp add: g status_defs ref_defs jni_consts)
  note r = query_true_iff_valid_env [of 7 ?w]
  have r1: "fst (isCurrentThreadAttached 7 ?w) = JNI_FALSE"
    using r h4 by blast
  have r2: "fst (isCurrentThreadAttached 7 (snd (attachCurrentThread 7 ?w))) = JNI_TRUE"
    using r h1 h3 by blast
  have r3: "fst (isCurrentThreadAttached 7 (detachCurrentThread 7 ?w)) = JNI_FALSE"
    using r h2 by blast
  have k: "attach_ok_gives_env ?vm" "knows_version_1_6 ?vm" "detach_detaches ?vm"
    by (simp_all add: ref_vm_attach_ok_gives_env ref_vm_knows_version_1_6 ref_vm_detach_detaches)
  show ?thesis
    using g k h3 r1 r2 r3 by blast
qed

section \<open>The scoped token\<close>

lemma ctor_null:
  "JNIThreadHelper_ctor None t w =
     (\<lparr>helper_jvm = None, helper_env = None, helper_attached = False\<rparr>, w)"
  by (simp add: token_defs)

lemma ctor_not_detached:
  "\<not> is_detached vm (host w) t \<Longrightarrow>
     JNIThreadHelper_ctor (Some vm) t w =
       (\<lparr>helper_jvm = Some vm, helper_env = snd (GetEnv vm (host w) t None JNI_VERSION_1_6),
         helper_attached = False\<rparr>,
        w\<lparr>calls := calls w @ [CallGetEnv t JNI_VERSION_1_6]\<rparr>)"
  by (auto simp add: token_defs status_defs Let_def split: prod.splits)

lemma ctor_detached_accepted:
  "GetEnv vm (host w) t None JNI_VERSION_1_6 = (JNI_EDETACHED, p) \<Longrightarrow>
   fst (fst (AttachCurrentThread vm (host w) t p)) = JNI_OK \<Longrightarrow>
     JNIThreadHelper_ctor (Some vm) t w =
       (\<lparr>helper_jvm = Some vm, helper_env = snd (fst (AttachCurrentThread vm (host w) t p)),
         helper_attached = True\<rparr>,
        w\<lparr>host := snd (AttachCurrentThread vm (host w) t p),
          calls := calls w @ [CallGetEnv t JNI_VERSION_1_6, CallAttachCurrentThread t],
          logcat := logcat w @ [ANDROID_LOG_INFO ''Thread attached to JVM'' []]\<rparr>)"
  by (auto simp add: token_defs Let_def split: prod.splits)

lemma ctor_detached_refused:
  "GetEnv vm (host w) t None JNI_VERSION_1_6 = (JNI_EDETACHED, p) \<Longrightarrow>
   fst (fst (AttachCurrentThread vm (host w) t p)) \<noteq> JNI_OK \<Longrightarrow>
     JNIThreadHelper_ctor (Some vm) t w =
       (\<lparr>helper_jvm = Some vm, helper_env = snd (fst (AttachCurrentThread vm (host w) t p)),
         helper_attached = False\<rparr>,
        w\<lparr>host := snd (AttachCurrentThread vm (host w) t p),
          calls := calls w @ [CallGetEnv t JNI_VERSION_1_6, CallAttachCurrentThread t],
          logcat := logcat w @ [ANDROID_LOG_ERROR ''Failed to attach thread to JVM: %d''
                      [ArgInt (fst (fst (AttachCurrentThread vm (host w) t p)))]]\<rparr>)"
  by (auto simp add: token_defs Let_def split: prod.splits)

lemma dtor_not_attached: "\<not> helper_attached tok \<Longrightarrow> JNIThreadHelper_dtor tok t w = w"
  by (simp add: token_defs)

lemma dtor_attached:
  "helper_attached tok \<Longrightarrow> helper_jvm tok = Some vm \<Longrightarrow>
     JNIThreadHelper_dtor tok t w =
       w\<lparr>host := snd (DetachCurrentThread vm (host w) t),
         calls := calls w @ [CallDetachCurrentThread t],
         logcat := logcat w @ [ANDROID_LOG_INFO ''Thread detached from JVM'' []]\<rparr>"
  by (simp add: token_defs split: prod.splits)

lemma token_lifetime_handle_set:
  assumes ctor: "JNIThreadHelper_ctor (Some vm) t w = (tok, w1)"
  shows "(helper_attached tok \<longleftrightarrow>
            is_detached vm (host w) t
          \<and> fst (fst (AttachCurrentThread vm (host w) t
                         (snd (GetEnv vm (host w) t None JNI_VERSION_1_6)))) = JNI_OK)
       \<and> (helper_attached tok \<longrightarrow>
            calls w1 = calls w @ [CallGetEnv t JNI_VERSION_1_6, CallAttachCurrentThread t])
       \<and> (\<forall>w'. calls (JNIThreadHelper_dtor tok t w') =
                 calls w' @ (if helper_attached tok then [CallDetachCurrentThread t] else []))
       \<and> (\<not> is_detached vm (host w) t \<longrightarrow>
            host w1 = host w \<and> (\<forall>w'. JNIThreadHelper_dtor tok t w' = w')
          \<and> \<not> is_detached vm (host (JNIThreadHelper_dtor tok t w1)) t)
       \<and> (is_detached vm (host w) t \<and> attach_refused_changes_nothing vm \<and> detach_detaches vm \<longrightarrow>
            is_detached vm (host (JNIThreadHelper_dtor tok t w1)) t)"
proof (cases "is_detached vm (host w) t")
  case False
  have "tok = \<lparr>helper_jvm = Some vm, helper_env = snd (GetEnv vm (host w) t None JNI_VERSION_1_6),
         helper_attached = False\<rparr>"
    and "w1 = w\<lparr>calls := calls w @ [CallGetEnv t JNI_VERSION_1_6]\<rparr>"
    using ctor ctor_not_detached [OF False] by simp_all
  then show ?thesis
    using False by (simp add: dtor_not_attached)
next
  case True
  obtain p where p: "GetEnv vm (host w) t None JNI_VERSION_1_6 = (JNI_EDETACHED, p)"
    using True by (cases "GetEnv vm (host w) t None JNI_VERSION_1_6") (simp add: status_defs)
  show ?thesis
  proof (cases "fst (fst (AttachCurrentThread vm (host w) t p)) = JNI_OK")
    case ok: True
    have tok: "tok = \<lparr>helper_jvm = Some vm,
                      helper_env = snd (fst (AttachCurrentThread vm (host w) t p)),
                      helper_attached = True\<rparr>"
      and w1: "w1 = w\<lparr>host := snd (AttachCurrentThread vm (host w) t p),
          calls := calls w @ [CallGetEnv t JNI_VERSION_1_6, CallAttachCurrentThread t],
          logcat := logcat w @ [ANDROID_LOG_INFO ''Thread attached to JVM'' []]\<rparr>"
      using ctor ctor_detached_accepted [OF p ok] by simp_all
    have a: "helper_attached tok" "helper_jvm tok = Some vm"
      by (simp_all add: tok)
    show ?thesis
      using True p ok
      by (simp add: dtor_attached [OF a] w1 a detach_detaches_def)
  next
    case refused: False
    have tok: "tok = \<lparr>helper_jvm = Some vm,
                      helper_env = snd (fst (AttachCurrentThread vm (host w) t p)),
                      helper_attached = False\<rparr>"
      and w1: "w1 = w\<lparr>host := snd (AttachCurrentThread vm (host w) t p),
          calls := calls w @ [CallGetEnv t JNI_VERSION_1_6, CallAttachCurrentThread t],
          logcat := logcat w @ [ANDROID_LOG_ERROR ''Failed to attach thread to JVM: %d''
                      [ArgInt (fst (fst (AttachCurrentThread vm (host w) t p)))]]\<rparr>"
      using ctor ctor_detached_refused [OF p refused] by simp_all
    have a: "\<not> helper_attached tok"
      by (simp add: tok)
    show ?thesis
      using True p refused
      by (auto simp add: dtor_not_attached [OF a] w1 a attach_refused_changes_nothing_def
            is_detached_def)
  qed
qed

text \<open>
  C1. Releasing a scoped token detaches the thread only if that token did the attach.
  The destructor issues a detach request exactly when \<^verbatim>\<open>attached_\<close> is set, and otherwise
  leaves the process as it is; \<^verbatim>\<open>attached_\<close> is set exactly when the constructor found the
  thread detached and its own attach request was answered \<^verbatim>\<open>JNI_OK\<close>. So a token created
  on a thread that was already attached never touches the runtime state and leaves the
  thread attached after release; a token created on a detached thread leaves it detached
  after release (on a runtime whose detach detaches and whose refused attach changes
  nothing). A token built on a null handle does nothing at either end.
\<close>

theorem scoped_token_detaches_only_own_attach:
  assumes ctor: "JNIThreadHelper_ctor jvm t w = (tok, w1)"
  shows "(\<forall>w'. calls (JNIThreadHelper_dtor tok t w') =
                 calls w' @ (if helper_attached tok then [CallDetachCurrentThread t] else []))
       \<and> (\<not> helper_attached tok \<longrightarrow> (\<forall>w'. JNIThreadHelper_dtor tok t w' = w'))
       \<and> (helper_attached tok \<longrightarrow>
            calls w1 = calls w @ [CallGetEnv t JNI_VERSION_1_6, CallAttachCurrentThread t])
       \<and> (jvm = None \<longrightarrow> \<not> helper_attached tok \<and> w1 = w)
       \<and> (\<forall>vm. jvm = Some vm \<longrightarrow>
            (helper_attached tok \<longleftrightarrow>
               is_detached vm (host w) t
             \<and> fst (fst (AttachCurrentThread vm (host w) t
                            (snd (GetEnv vm (host w) t None JNI_VERSION_1_6)))) = JNI_OK)
          \<and> (\<not> is_detached vm (host w) t \<longrightarrow>
               host w1 = host w \<and> \<not> is_detached vm (host (JNIThreadHelper_dtor tok t w1)) t)
          \<and> (is_detached vm (host w) t \<and> attach_refused_changes_nothing vm \<and> detach_detaches vm
               \<longrightarrow> is_detached vm (host (JNIThreadHelper_dtor tok t w1)) t))"
proof (cases jvm)
  case None
  then have "tok = \<lparr>helper_jvm = None, helper_env = None, helper_attached = False\<rparr>" "w1 = w"
    using ctor by (simp_all add: ctor_null)
  then show ?thesis
    using None by (simp add: dtor_not_attached)
next
  case (Some vm)
  note r = token_lifetime_handle_set [OF ctor [unfolded Some]]
  have idle: "\<forall>w'. JNIThreadHelper_dtor tok t w' = w'" if "\<not> helper_attached tok"
    using that by (simp add: dtor_not_attached)
  show ?thesis
    using r idle Some by simp
qed

theorem scoped_token_detaches_only_own_attach_witness:
  "JNIThreadHelper_ctor (Some (ref_vm JNI_VERSION_1_6)) 7 (loaded_process JNI_VERSION_1_6 {7} True)
     = (\<lparr>helper_jvm = Some (ref_vm JNI_VERSION_1_6), helper_env = Some 7, helper_attached = False\<rparr>,
        \<lparr>g_jvm = Some (ref_vm JNI_VERSION_1_6),
         host = \<lparr>attached_threads = {7}, accepts_attach = True\<rparr>,
         calls = [CallGetEnv 7 JNI_VERSION_1_6], logcat = []\<rparr>)
   \<and> \<not> is_detached (ref_vm JNI_VERSION_1_6) (host (loaded_process JNI_VERSION_1_6 {7} True)) 7
   \<and> \<not> is_detached (ref_vm JNI_VERSION_1_6)
        (host (JNIThreadHelper_dtor
           \<lparr>helper_jvm = Some (ref_vm JNI_VERSION_1_6), helper_env = Some 7, helper_attached = False\<rparr> 7
           \<lparr>g_jvm = Some (ref_vm JNI_VERSION_1_6),
            host = \<lparr>attached_threads = {7}, accepts_attach = True\<rparr>,
            calls = [CallGetEnv 7 JNI_VERSION_1_6], logcat = []\<rparr>)) 7
   \<and> JNIThreadHelper_ctor (Some (ref_vm JNI_VERSION_1_6)) 7 (loaded_process JNI_VERSION_1_6 {} True)
     = (\<lparr>helper_jvm = Some (ref_vm JNI_VERSION_1_6), helper_env = Some 7, helper_attached = True\<rparr>,
        \<lparr>g_jvm = Some (ref_vm JNI_VERSION_1_6),
         host = \<lparr>attached_threads = {7}, accepts_attach = True\<rparr>,
         calls = [CallGetEnv 7 JNI_VERSION_1_6, CallAttachCurrentThread 7],
         logcat = [ANDROID_LOG_INFO ''Thread attached to JVM'' []]\<rparr>)
   \<and> is_detached (ref_vm JNI_VERSION_1_6) (host (loaded_process JNI_VERSION_1_6 {} True)) 7
   \<and> attach_refused_changes_nothing (ref_vm JNI_VERSION_1_6)
   \<and> detach_detaches (ref_vm JNI_VERSION_1_6)
   \<and> is_detached (ref_vm JNI_VERSION_1_6)
        (host (JNIThreadHelper_dtor
           \<lparr>helper_jvm = Some (ref_vm JNI_VERSION_1_6), helper_env = Some 7, helper_attached = True\<rparr> 7
           \<lparr>g_jvm = Some (ref_vm JNI_VERSION_1_6),
            host = \<lparr>attached_threads = {7}, accepts_attach = True\<rparr>,
            calls = [CallGetEnv 7 JNI_VERSION_1_6, CallAttachCurrentThread 7],
            logcat = [ANDROID_LOG_INFO ''Thread attached to JVM'' []]\<rparr>)) 7"
proof -
  let ?vm = "ref_vm JNI_VERSION_1_6"
  let ?wa = "loaded_process JNI_VERSION_1_6 {7} True"
  let ?wd = "loaded_process JNI_VERSION_1_6 {} True"
  let ?toka = "\<lparr>helper_jvm = Some ?vm, helper_env = Some (7::nat), helper_attached = False\<rparr>"
  let ?tokd = "\<lparr>helper_jvm = Some ?vm, helper_env = Some (7::nat), helper_attached = True\<rparr>"
  let ?wa1 = "\<lparr>g_jvm = Some ?vm,
         host = \<lparr>attached_threads = {7}, accepts_attach = True\<rparr>,
         calls = [CallGetEnv 7 JNI_VERSION_1_6], logcat = []\<rparr>"
  let ?wd1 = "\<lparr>g_jvm = Some ?vm,
         host = \<lparr>attached_threads = {7}, accepts_attach = True\<rparr>,
         calls = [CallGetEnv 7 JNI_VERSION_1_6, CallAttachCurrentThread 7],
         logcat = [ANDROID_LOG_INFO ''Thread attached to JVM'' []]\<rparr>"
  have a1: "JNIThreadHelper_ctor (Some ?vm) 7 ?wa = (?toka, ?wa1)"
    by (simp add: token_defs ref_defs Let_def jni_consts)
  have a2: "\<not> is_detached ?vm (host ?wa) 7"
    by (simp add: status_defs ref_defs jni_consts)
  have d1: "JNIThreadHelper_ctor (Some ?vm) 7 ?wd = (?tokd, ?wd1)"
    by (simp add: token_defs ref_defs Let_def jni_consts)
  have d2: "is_detached ?vm (host ?wd) 7"
    by (simp add: status_defs ref_defs)
  have k1: "attach_refused_changes_nothing ?vm"
    by (rule ref_vm_attach_refused_changes_nothing)
  have k2: "detach_detaches ?vm"
    by (rule ref_vm_detach_detaches)
  have ra: "\<not> is_detached ?vm (host (JNIThreadHelper_dtor ?toka 7 ?wa1)) 7"
    using scoped_token_detaches_only_own_attach [OF a1] a2 by blast
  have rd: "is_detached ?vm (host (JNIThreadHelper_dtor ?tokd 7 ?wd1)) 7"
    using scoped_token_detaches_only_own_attach [OF d1] d2 k1 k2 by blast
  show ?thesis
    using a1 a2 ra d1 d2 k1 k2 rd by blast
qed

section \<open>The guarded call\<close>

text \<open>
  C5, as the code has it. Once the call holds the mutex, the guarded call lets through
  exactly the objects its handler does not take. With an invalid token it logs an error
  and returns the default result, the work not being invoked. With a valid token: a
  result of the work is returned as it is; an object thrown by the work that has
  \<^verbatim>\<open>std::exception\<close> as its type or as an unambiguous public base is caught, logged with
  its \<^verbatim>\<open>what()\<close> text and turned into the default result; any other object thrown by the
  work (of a type outside \<^verbatim>\<open>std::exception\<close>, or derived from it ambiguously or
  inaccessibly) is not caught. It reaches an enclosing handler after the token and the
  mutex are released, or, when no handler above takes it, ends the process with neither
  released. So the call returns a value whenever the default result can be built and the
  work throws only objects the handler takes.
\<close>

theorem guarded_call_catches_std_exception:
  assumes lock: "mutex_lock MX (detector_mutex this) t = Some (Inr m)"
    and ctor: "JNIThreadHelper_ctor (detector_jvm this) t w = (tok, w1)"
  shows "(\<not> isValid tok \<longrightarrow> (\<forall>r. ResultType D = Inr r \<longrightarrow>
            detectWithThreadSafety MX handler_above this D d frame t w =
              Some (Inr r,
                    scope_exit MX (this\<lparr>detector_mutex := m\<rparr>) tok d t
                      (LOGE ''Failed to attach thread for detection'' [] w1))))
       \<and> (isValid tok \<longrightarrow> (\<forall>r d1 w2. detect D d frame w1 = (Returns r, d1, w2) \<longrightarrow>
            detectWithThreadSafety MX handler_above this D d frame t w =
              Some (Inr r, scope_exit MX (this\<lparr>detector_mutex := m\<rparr>) tok d1 t w2)))
       \<and> (isValid tok \<longrightarrow>
            (\<forall>what x r d1 w2.
               detect D d frame w1 = (Throws (Thrown (Unambiguous_public_base what) x), d1, w2)
               \<and> ResultType D = Inr r \<longrightarrow>
               detectWithThreadSafety MX handler_above this D d frame t w =
                 Some (Inr r,
                       scope_exit MX (this\<lparr>detector_mutex := m\<rparr>) tok d1 t
                         (LOGE ''Detection failed: %s'' [ArgStr what] w2))))
       \<and> (isValid tok \<longrightarrow>
            (\<forall>e d1 w2.
               detect D d frame w1 = (Throws e, d1, w2)
               \<and> (\<forall>what. exception_base e \<noteq> Unambiguous_public_base what) \<longrightarrow>
               detectWithThreadSafety MX handler_above this D d frame t w =
                 Some (if handler_above e
                       then (Inl (Propagates e),
                             scope_exit MX (this\<lparr>detector_mutex := m\<rparr>) tok d1 t w2)
                       else (Inl (Terminates e), this\<lparr>detector_mutex := m\<rparr>, d1, w2))))
       \<and> ((\<exists>r. ResultType D = Inr r)
            \<and> (\<forall>e. fst (detect D d frame w1) = Throws e
                  \<longrightarrow> (\<exists>what. exception_base e = Unambiguous_public_base what))
            \<longrightarrow> (\<exists>r s. detectWithThreadSafety MX handler_above this D d frame t w = Some (Inr r, s)))"
proof -
  have invalid: "detectWithThreadSafety MX handler_above this D d frame t w =
              Some (Inr r,
                    scope_exit MX (this\<lparr>detector_mutex := m\<rparr>) tok d t
                      (LOGE ''Failed to attach thread for detection'' [] w1))"
    if "\<not> isValid tok" "ResultType D = Inr r" for r
    using that by (simp add: detectWithThreadSafety_def lock ctor Let_def)
  have returns: "detectWithThreadSafety MX handler_above this D d frame t w =
              Some (Inr r, scope_exit MX (this\<lparr>detector_mutex := m\<rparr>) tok d1 t w2)"
    if "isValid tok" "detect D d frame w1 = (Returns r, d1, w2)" for r d1 w2
    using that by (simp add: detectWithThreadSafety_def lock ctor Let_def)
  have caught: "detectWithThreadSafety MX handler_above this D d frame t w =
                 Some (Inr r,
                       scope_exit MX (this\<lparr>detector_mutex := m\<rparr>) tok d1 t
                         (LOGE ''Detection failed: %s'' [ArgStr what] w2))"
    if "isValid tok"
      "detect D d frame w1 = (Throws (Thrown (Unambiguous_public_base what) x), d1, w2)"
      "ResultType D = Inr r" for what x r d1 w2
    using that by (simp add: detectWithThreadSafety_def lock ctor Let_def)
  have escapes: "detectWithThreadSafety MX handler_above this D d frame t w =
                 Some (if handler_above e
                       then (Inl (Propagates e),
                             scope_exit MX (this\<lparr>detector_mutex := m\<rparr>) tok d1 t w2)
                       else (Inl (Terminates e), this\<lparr>detector_mutex := m\<rparr>, d1, w2))"
    if "isValid tok" "detect D d frame w1 = (Throws e, d1, w2)"
      "\<forall>what. exception_base e \<noteq> Unambiguous_public_base what" for e d1 w2
    using that
    by (cases "exception_base e")
       (simp_all add: detectWithThreadSafety_def lock ctor Let_def uncaught_def)
  have contained: "\<exists>r s. detectWithThreadSafety MX handler_above this D d frame t w = Some (Inr r, s)"
    if dflt: "\<exists>r. ResultType D = Inr r"
      and std: "\<forall>e. fst (detect D d frame w1) = Throws e
                  \<longrightarrow> (\<exists>what. exception_base e = Unambiguous_public_base what)"
  proof -
    obtain r0 where r0: "ResultType D = Inr r0"
      using dflt by blast
    show ?thesis
    proof (cases "isValid tok")
      case False
      then show ?thesis
        using invalid [OF False r0] by blast
    next
      case True
      obtain out d1 w2 where det: "detect D d frame w1 = (out, d1, w2)"
        by (cases "detect D d frame w1")
      show ?thesis
      proof (cases out)
        case (Returns r)
        then show ?thesis
          using returns [OF True] det by blast
      next
        case (Throws e)
        then obtain what where "exception_base e = Unambiguous_public_base what"
          using std det by auto
        then have "e = Thrown (Unambiguous_public_base what) (thrown_value e)"
          by (cases e) simp
        then show ?thesis
          using caught [OF True _ r0] det Throws by metis
      qed
    qed
  qed
  show ?thesis
    using invalid returns caught escapes contained by blast
qed

theorem guarded_call_catches_std_exception_witness:
  "mutex_lock ref_mutex (detector_mutex ref_wrapper) 7 = Some (Inr (Some 7))
   \<and> JNIThreadHelper_ctor (detector_jvm ref_wrapper) 7 (loaded_process JNI_VERSION_1_6 {} True)
     = (\<lparr>helper_jvm = Some (ref_vm JNI_VERSION_1_6), helper_env = Some 7, helper_attached = True\<rparr>,
        \<lparr>g_jvm = Some (ref_vm JNI_VERSION_1_6),
         host = \<lparr>attached_threads = {7}, accepts_attach = True\<rparr>,
         calls = [CallGetEnv 7 JNI_VERSION_1_6, CallAttachCurrentThread 7],
         logcat = [ANDROID_LOG_INFO ''Thread attached to JVM'' []]\<rparr>)
   \<and> isValid \<lparr>helper_jvm = Some (ref_vm JNI_VERSION_1_6), helper_env = Some 7, helper_attached = True\<rparr>
   \<and> detectWithThreadSafety ref_mutex no_handler_above ref_wrapper
        (fixed_detector (Throws (Thrown (Unambiguous_public_base ''bad frame'') 0))) () () 7
        (loaded_process JNI_VERSION_1_6 {} True)
     = Some (Inr [], ref_wrapper, (),
        \<lparr>g_jvm = Some (ref_vm JNI_VERSION_1_6),
         host = \<lparr>attached_threads = {}, accepts_attach = True\<rparr>,
         calls = [CallGetEnv 7 JNI_VERSION_1_6, CallAttachCurrentThread 7, CallDetachCurrentThread 7],
         logcat = [ANDROID_LOG_INFO ''Thread attached to JVM'' [],
                   ANDROID_LOG_ERROR ''Detection failed: %s'' [ArgStr ''bad frame''],
                   ANDROID_LOG_INFO ''Thread detached from JVM'' []]\<rparr>)
   \<and> detectWithThreadSafety ref_mutex no_handler_above ref_wrapper
        (fixed_detector (Throws (Thrown Ambiguous_base 0))) () () 7
        (loaded_process JNI_VERSION_1_6 {} True)
     = Some (Inl (Terminates (Thrown Ambiguous_base 0)),
        ref_wrapper\<lparr>detector_mutex := Some 7\<rparr>, (),
        \<lparr>g_jvm = Some (ref_vm JNI_VERSION_1_6),
         host = \<lparr>attached_threads = {7}, accepts_attach = True\<rparr>,
         calls = [CallGetEnv 7 JNI_VERSION_1_6, CallAttachCurrentThread 7],
         logcat = [ANDROID_LOG_INFO ''Thread attached to JVM'' []]\<rparr>)"
proof -
  let ?w = "loaded_process JNI_VERSION_1_6 {} True"
  let ?tok = "\<lparr>helper_jvm = Some (ref_vm JNI_VERSION_1_6), helper_env = Some (7::nat),
               helper_attached = True\<rparr>"
  let ?w1 = "\<lparr>g_jvm = Some (ref_vm JNI_VERSION_1_6),
         host = \<lparr>attached_threads = {7}, accepts_attach = True\<rparr>,
         calls = [CallGetEnv 7 JNI_VERSION_1_6, CallAttachCurrentThread 7],
         logcat = [ANDROID_LOG_INFO ''Thread attached to JVM'' []]\<rparr>"
  let ?std = "Thrown (Unambiguous_public_base ''bad frame'') (0::nat)"
  let ?amb = "Thrown Ambiguous_base (0::nat)"
  have h0: "mutex_lock ref_mutex (detector_mutex ref_wrapper) 7 = Some (Inr (Some 7))"
    by (simp add: ref_mutex_def ref_wrapper_def)
  have h1: "JNIThreadHelper_ctor (detector_jvm ref_wrapper) 7 ?w = (?tok, ?w1)"
    by (simp add: token_defs ref_defs Let_def jni_consts)
  have h2: "isValid ?tok"
    by (simp add: isValid_def)
  have h3: "detect (fixed_detector (Throws ?std)) () () ?w1 = (Throws ?std, (), ?w1)
            \<and> ResultType (fixed_detector (Throws ?std)) = Inr []"
    by (simp add: fixed_detector_def)
  have h4: "detect (fixed_detector (Throws ?amb)) () () ?w1 = (Throws ?amb, (), ?w1)
            \<and> (\<forall>what. exception_base ?amb \<noteq> Unambiguous_public_base what)"
    by (simp add: fixed_detector_def)
  note rs = guarded_call_catches_std_exception
              [OF h0 h1, of "fixed_detector (Throws ?std)" no_handler_above "()" "()"]
  note ra = guarded_call_catches_std_exception
              [OF h0 h1, of "fixed_detector (Throws ?amb)" no_handler_above "()" "()"]
  have "detectWithThreadSafety ref_mutex no_handler_above ref_wrapper
          (fixed_detector (Throws ?std)) () () 7 ?w =
          Some (Inr [],
                scope_exit ref_mutex (ref_wrapper\<lparr>detector_mutex := Some 7\<rparr>) ?tok () 7
                  (LOGE ''Detection failed: %s'' [ArgStr ''bad frame''] ?w1))"
    using rs h2 h3 by blast
  also have "\<dots> = Some (Inr [], ref_wrapper, (),
        \<lparr>g_jvm = Some (ref_vm JNI_VERSION_1_6),
         host = \<lparr>attached_threads = {}, accepts_attach = True\<rparr>,
         calls = [CallGetEnv 7 JNI_VERSION_1_6, CallAttachCurrentThread 7, CallDetachCurrentThread 7],
         logcat = [ANDROID_LOG_INFO ''Thread attached to JVM'' [],
                   ANDROID_LOG_ERROR ''Detection failed: %s'' [ArgStr ''bad frame''],
                   ANDROID_LOG_INFO ''Thread detached from JVM'' []]\<rparr>)"
    by (simp add: scope_exit_def token_defs ref_defs)
  finally have caught: "detectWithThreadSafety ref_mutex no_handler_above ref_wrapper
          (fixed_detector (Throws ?std)) () () 7 ?w = Some (Inr [], ref_wrapper, (),
        \<lparr>g_jvm = Some (ref_vm JNI_VERSION_1_6),
         host = \<lparr>attached_threads = {}, accepts_attach = True\<rparr>,
         calls = [CallGetEnv 7 JNI_VERSION_1_6, CallAttachCurrentThread 7, CallDetachCurrentThread 7],
         logcat = [ANDROID_LOG_INFO ''Thread attached to JVM'' [],
                   ANDROID_LOG_ERROR ''Detection failed: %s'' [ArgStr ''bad frame''],
                   ANDROID_LOG_INFO ''Thread detached from JVM'' []]\<rparr>)" .
  have "detectWithThreadSafety ref_mutex no_handler_above ref_wrapper
          (fixed_detector (Throws ?amb)) () () 7 ?w =
          Some (if no_handler_above ?amb
                then (Inl (Propagates ?amb),
                      scope_exit ref_mutex (ref_wrapper\<lparr>detector_mutex := Some 7\<rparr>) ?tok () 7 ?w1)
                else (Inl (Terminates ?amb), ref_wrapper\<lparr>detector_mutex := Some 7\<rparr>, (), ?w1))"
    using ra h2 h4 by blast
  then have ended: "detectWithThreadSafety ref_mutex no_handler_above ref_wrapper
          (fixed_detector (Throws ?amb)) () () 7 ?w =
          Some (Inl (Terminates ?amb), ref_wrapper\<lparr>detector_mutex := Some 7\<rparr>, (), ?w1)"
    by (simp add: no_handler_above_def)
  show ?thesis
    using h0 h1 h2 caught ended by blast
qed

text \<open>
  The claim C5 as stated fails: a unit of work that throws an object whose type does not
  derive from \<^verbatim>\<open>std::exception\<close> (here the number 42), run on an attached thread with the
  handle set and the mutex free, is not caught, and the object leaves the guarded call
  for the handler above it.
\<close>

theorem guarded_call_propagates_other_throw:
  "map_option fst
     (detectWithThreadSafety ref_mutex catch_all_above ref_wrapper
        (fixed_detector (Throws (Thrown Not_a_base 42))) () () 7
        (loaded_process JNI_VERSION_1_6 {7} True))
     = Some (Inl (Propagates (Thrown Not_a_base 42)))"
  by (simp add: detectWithThreadSafety_def uncaught_def scope_exit_def token_defs ref_defs Let_def)

end
